theory Spec2Isabelle
  imports Complex_Main
begin

section \<open>The camera price scraper: data model\<close>

text \<open>
  The development follows \<^verbatim>\<open>src/scraper/scrape_prices.py\<close>. Text is a \<^typ>\<open>string\<close>, one
  \<^typ>\<open>char\<close> per code point below 256; in that range the regular expression class
  \<^verbatim>\<open>\d\<close> is exactly the ten characters 0 to 9. A price is the decimal value that the
  characters handed to Python's \<^verbatim>\<open>float\<close> denote, as a \<^typ>\<open>rat\<close>: the rounding of that
  value to a binary double is left out of the model. Python's \<^verbatim>\<open>None\<close> is \<^term>\<open>None\<close>.
  The JSON documents are taken to be well typed: the keys the script reads with
  \<^verbatim>\<open>d[key]\<close> are present and hold strings, prices are numbers or null. Console output is
  not modelled.
\<close>

datatype py_error = ValueError | TypeError | OSError

text \<open>
  What the script asks of a BeautifulSoup element: \<^verbatim>\<open>element.get("content")\<close>
  (\<^term>\<open>None\<close> when the attribute is missing) and \<^verbatim>\<open>element.get_text(strip=True)\<close>.
\<close>

record element =
  content_attr :: "string option"
  get_text :: string

text \<open>
  \<^verbatim>\<open>soup.select_one(selector)\<close> raises on a selector that is not valid CSS, returns
  \<^verbatim>\<open>None\<close> when nothing matches, and the first matching element otherwise. A parsed
  document is the function from selectors to these outcomes. An element is always true in
  a condition (\<^verbatim>\<open>if price_element:\<close>), so such a test only separates it from \<^verbatim>\<open>None\<close>.
\<close>

datatype select_result = Selector_error | No_element | Element element

type_synonym soup = "string \<Rightarrow> select_result"

text \<open>
  The outcome of \<^verbatim>\<open>requests.get\<close>, \<^verbatim>\<open>raise_for_status\<close> and the construction of the
  soup for one URL: a \<^verbatim>\<open>RequestException\<close>, any other exception, or the parsed page.
\<close>

datatype http_result = Request_exception | Other_exception | Html soup

type_synonym web = "string \<Rightarrow> http_result"

text \<open>
  One entry of \<^verbatim>\<open>cameras.json\<close>. The keys read with \<^verbatim>\<open>camera[...]\<close> are fields; the keys
  read with \<^verbatim>\<open>camera.get(...)\<close> are optional fields.
\<close>

record camera =
  cam_id :: string
  cam_name :: string
  cam_model :: string
  cam_category :: string
  cam_url :: string
  cam_retailer :: "string option"
  cam_price_selector :: "string option"
  cam_enabled :: "bool option"
  cam_description :: "string option"

record cameras_config =
  cfg_cameras :: "camera list option"

text \<open>
  One entry of the \<^verbatim>\<open>cameras\<close> list of \<^verbatim>\<open>prices.json\<close>, as \<^verbatim>\<open>scrape_all_cameras\<close> builds it
  and as a later run reads it back. \<^verbatim>\<open>c.get("price")\<close> is \<^term>\<open>None\<close> for a null price
  and for a missing key alike.
\<close>

record reading =
  rd_id :: string
  rd_name :: string
  rd_model :: string
  rd_category :: string
  rd_price :: "rat option"
  rd_retailer :: string
  rd_url :: string
  rd_description :: string

record existing_data =
  ex_cameras :: "reading list option"
  ex_last_updated :: "string option"

text \<open>What opening and decoding the previous output file can do.\<close>

datatype file_read = File_not_found | Json_decode_error | Other_failure | Loaded existing_data

section \<open>parse_price\<close>

definition is_digit :: "char \<Rightarrow> bool" where
  "is_digit c = (let n = (of_char c :: nat) in 48 \<le> n \<and> n \<le> 57)"

definition digit_value :: "char \<Rightarrow> nat" where
  "digit_value c = of_char c - 48"

definition digits_value :: "string \<Rightarrow> nat" where
  "digits_value ds = foldl (\<lambda>n c. 10 * n + digit_value c) 0 ds"

text \<open>
  Python's \<^verbatim>\<open>float\<close> on the strings that reach it here, which hold digits and points only
  (lemma \<open>re_sub_only_numeric\<close> below): digits, at most one point, at least one digit;
  anything else is a \<^verbatim>\<open>ValueError\<close>. Signs, exponents, blanks and underscores never
  survive the substitution, so they are not part of this model.
\<close>

definition py_float :: "string \<Rightarrow> py_error + rat" where
  "py_float s =
     (let ip = takeWhile is_digit s; rest = dropWhile is_digit s in
      case rest of
        [] \<Rightarrow> if ip = [] then Inl ValueError else Inr (of_nat (digits_value ip))
      | c # fp \<Rightarrow>
          if c = CHR ''.'' \<and> list_all is_digit fp \<and> (ip \<noteq> [] \<or> fp \<noteq> [])
          then Inr (of_nat (digits_value ip) + of_nat (digits_value fp) / 10 ^ length fp)
          else Inl ValueError)"

text \<open>\<^verbatim>\<open>re.sub(r'[^\d.]', '', price_text)\<close>\<close>

definition re_sub_non_numeric :: "string \<Rightarrow> string" where
  "re_sub_non_numeric price_text = filter (\<lambda>c. is_digit c \<or> c = CHR ''.'') price_text"

definition parse_price :: "string option \<Rightarrow> rat option" where
  "parse_price price_text =
     (case price_text of
        None \<Rightarrow> None
      | Some t \<Rightarrow>
          if t = [] then None
          else (case py_float (re_sub_non_numeric t) of
                  Inl e \<Rightarrow> None
                | Inr v \<Rightarrow> Some v))"


section \<open>fetch_price\<close>

definition fallback_selectors :: "string list" where
  \<open>fallback_selectors =
     [''[class*="price"]'', ''[id*="price"]'', ''.product-price'', ''.current-price'',
      ''span[itemprop="price"]'', ''meta[itemprop="price"]'']\<close>

text \<open>
  The \<^verbatim>\<open>for selector in fallback_selectors\<close> loop and the \<^verbatim>\<open>return None\<close> after it. An
  exception of \<^verbatim>\<open>select_one\<close> is caught by the function's \<^verbatim>\<open>except Exception\<close>, which
  returns \<^verbatim>\<open>None\<close>. \<^verbatim>\<open>if price:\<close> is false for \<^verbatim>\<open>None\<close> and for zero.
\<close>

fun fallback_loop :: "soup \<Rightarrow> string list \<Rightarrow> rat option" where
  "fallback_loop soup [] = None"
| "fallback_loop soup (selector # rest) =
     (case soup selector of
        Selector_error \<Rightarrow> None
      | No_element \<Rightarrow> fallback_loop soup rest
      | Element element \<Rightarrow>
          (case content_attr element of
             Some (c # cs) \<Rightarrow> parse_price (Some (c # cs))
           | _ \<Rightarrow>
               (case parse_price (Some (get_text element)) of
                  None \<Rightarrow> fallback_loop soup rest
                | Some price \<Rightarrow> if price \<noteq> 0 then Some price else fallback_loop soup rest)))"

definition fetch_price :: "web \<Rightarrow> string \<Rightarrow> string \<Rightarrow> rat option" where
  "fetch_price web url price_selector =
     (case web url of
        Request_exception \<Rightarrow> None
      | Other_exception \<Rightarrow> None
      | Html soup \<Rightarrow>
          (case soup price_selector of
             Selector_error \<Rightarrow> None
           | Element price_element \<Rightarrow> parse_price (Some (get_text price_element))
           | No_element \<Rightarrow> fallback_loop soup fallback_selectors))"

section \<open>scrape_all_cameras\<close>

definition camera_result :: "web \<Rightarrow> camera \<Rightarrow> reading" where
  "camera_result web camera =
     \<lparr>rd_id = cam_id camera,
      rd_name = cam_name camera,
      rd_model = cam_model camera,
      rd_category = cam_category camera,
      rd_price =
        fetch_price web (cam_url camera)
          (case cam_price_selector camera of None \<Rightarrow> ''.price'' | Some s \<Rightarrow> s),
      rd_retailer = (case cam_retailer camera of None \<Rightarrow> ''Unknown'' | Some r \<Rightarrow> r),
      rd_url = cam_url camera,
      rd_description = (case cam_description camera of None \<Rightarrow> '''' | Some d \<Rightarrow> d)\<rparr>"

text \<open>\<^verbatim>\<open>camera.get("enabled", True)\<close>\<close>

definition get_enabled :: "camera \<Rightarrow> bool" where
  "get_enabled camera = (case cam_enabled camera of None \<Rightarrow> True | Some b \<Rightarrow> b)"

text \<open>\<^verbatim>\<open>cameras_config.get("cameras", [])\<close>\<close>

definition config_cameras :: "cameras_config \<Rightarrow> camera list" where
  "config_cameras cameras_config =
     (case cfg_cameras cameras_config of None \<Rightarrow> [] | Some cs \<Rightarrow> cs)"

text \<open>The loop over the cameras: \<^verbatim>\<open>continue\<close> on a disabled one, \<^verbatim>\<open>results.append\<close> otherwise.\<close>

fun scrape_loop :: "web \<Rightarrow> camera list \<Rightarrow> reading list" where
  "scrape_loop web [] = []"
| "scrape_loop web (camera # rest) =
     (if \<not> get_enabled camera
      then scrape_loop web rest
      else camera_result web camera # scrape_loop web rest)"

definition scrape_all_cameras :: "web \<Rightarrow> cameras_config \<Rightarrow> reading list" where
  "scrape_all_cameras web cameras_config = scrape_loop web (config_cameras cameras_config)"

section \<open>load_existing_prices, merge_prices, main\<close>

definition load_existing_prices :: "file_read \<Rightarrow> py_error + existing_data" where
  "load_existing_prices f =
     (case f of
        Loaded d \<Rightarrow> Inr d
      | File_not_found \<Rightarrow> Inr \<lparr>ex_cameras = Some [], ex_last_updated = None\<rparr>
      | Json_decode_error \<Rightarrow> Inr \<lparr>ex_cameras = Some [], ex_last_updated = None\<rparr>
      | Other_failure \<Rightarrow> Inl OSError)"

text \<open>\<^verbatim>\<open>existing_data.get("cameras", [])\<close>\<close>

definition get_cameras :: "existing_data \<Rightarrow> reading list" where
  "get_cameras existing = (case ex_cameras existing of None \<Rightarrow> [] | Some cs \<Rightarrow> cs)"

text \<open>
  The dictionary comprehension \<^verbatim>\<open>{c["id"]: c.get("price") for c in ...}\<close>: entries are
  stored in list order, so a later entry replaces an earlier one with the same key.
\<close>

definition existing_prices :: "existing_data \<Rightarrow> (string \<rightharpoonup> rat option)" where
  "existing_prices existing =
     fold (\<lambda>c m. m(rd_id c \<mapsto> rd_price c)) (get_cameras existing) Map.empty"

definition merge_prices :: "reading list \<Rightarrow> existing_data \<Rightarrow> reading list" where
  "merge_prices new_cameras existing =
     map (\<lambda>camera.
            if rd_price camera = None
            then (case existing_prices existing (rd_id camera) of
                    None \<Rightarrow> camera
                  | Some p \<Rightarrow> camera\<lparr>rd_price := p\<rparr>)
            else camera)
         new_cameras"

text \<open>
  The \<^verbatim>\<open>cameras\<close> that \<^verbatim>\<open>main\<close> hands to \<^verbatim>\<open>save_prices\<close>, from the loaded configuration,
  the state of the web and the state of the previous output file.
\<close>

definition main :: "web \<Rightarrow> cameras_config \<Rightarrow> file_read \<Rightarrow> py_error + reading list" where
  "main web config f =
     (let cameras = scrape_all_cameras web config in
      case load_existing_prices f of
        Inl e \<Rightarrow> Inl e
      | Inr existing \<Rightarrow> Inr (merge_prices cameras existing))"

section \<open>Sample data\<close>

text \<open>Concrete pages, readings and configurations on which the functions are evaluated.\<close>

definition single_page :: "soup \<Rightarrow> web" where
  "single_page soup = (\<lambda>url. Html soup)"

definition offline :: web where
  "offline = (\<lambda>url. Request_exception)"

definition text_element :: "string \<Rightarrow> select_result" where
  "text_element t = Element \<lparr>content_attr = None, get_text = t\<rparr>"

text \<open>
  \<^verbatim>\<open><span id="cost">Call for price</span> <span class="product-price">$249.99</span>\<close>
\<close>

definition page_call_for_price :: soup where
  \<open>page_call_for_price =
     (\<lambda>selector. No_element)
       (''#cost'' := text_element ''Call for price'',
        ''[class*="price"]'' := text_element ''$249.99'',
        ''.product-price'' := text_element ''$249.99'')\<close>

text \<open>
  \<^verbatim>\<open><meta class="price-currency" content="USD"> <span class="product-price">$249.99</span>\<close>
\<close>

definition page_meta_currency :: soup where
  \<open>page_meta_currency =
     (\<lambda>selector. No_element)
       (''[class*="price"]'' := Element \<lparr>content_attr = Some ''USD'', get_text = ''''\<rparr>,
        ''.product-price'' := text_element ''$249.99'')\<close>

definition sample_reading :: "string \<Rightarrow> rat option \<Rightarrow> reading" where
  "sample_reading i p =
     \<lparr>rd_id = i, rd_name = ''Camera'', rd_model = ''M1'', rd_category = ''dome'', rd_price = p,
      rd_retailer = ''Shop'', rd_url = ''https://shop.example/item'', rd_description = ''''\<rparr>"

definition sample_camera :: "string \<Rightarrow> bool option \<Rightarrow> camera" where
  "sample_camera i e =
     \<lparr>cam_id = i, cam_name = ''Camera'', cam_model = ''M1'', cam_category = ''dome'',
      cam_url = ''https://shop.example/item'', cam_retailer = None, cam_price_selector = None,
      cam_enabled = e, cam_description = None\<rparr>"

section \<open>Facts about parsing\<close>

lemma point_not_digit: "\<not> is_digit CHR ''.''"
  by (simp add: is_digit_def)

lemma re_sub_only_numeric:
  "list_all (\<lambda>c. is_digit c \<or> c = CHR ''.'') (re_sub_non_numeric t)"
  by (simp add: re_sub_non_numeric_def list_all_iff)



lemma re_sub_no_digit:
  "list_all (\<lambda>c. \<not> is_digit c) t \<Longrightarrow> list_all (\<lambda>c. c = CHR ''.'') (re_sub_non_numeric t)"
  by (induction t) (auto simp: re_sub_non_numeric_def)

lemma py_float_no_digit:
  "list_all (\<lambda>c. c = CHR ''.'') s \<Longrightarrow> py_float s = Inl ValueError"
proof (cases s)
  case Nil
  then show ?thesis by (simp add: py_float_def)
next
  case (Cons c cs)
  assume "list_all (\<lambda>c. c = CHR ''.'') s"
  with Cons have c: "c = CHR ''.''" and cs: "list_all (\<lambda>c. c = CHR ''.'') cs"
    by simp_all
  have "cs \<noteq> [] \<Longrightarrow> \<not> list_all is_digit cs"
    using cs by (cases cs) (simp_all add: point_not_digit)
  then show ?thesis
    using Cons c by (auto simp: py_float_def point_not_digit)
qed








text \<open>
  C6. \<^verbatim>\<open>parse_price\<close> returns absent for the null text, for the empty text and for every
  text that holds no digit and no decimal point; more generally for every text that holds
  no digit. The result type has no error component: the only exception the body can raise
  on a text, the \<^verbatim>\<open>ValueError\<close> of \<^verbatim>\<open>float\<close>, is the \<^term>\<open>Inl\<close> branch that it turns into
  absent.
\<close>

theorem parse_price_absent:
  "parse_price None = None \<and>
   parse_price (Some '''') = None \<and>
   (list_all (\<lambda>c. \<not> is_digit c \<and> c \<noteq> CHR ''.'') t \<longrightarrow> parse_price (Some t) = None) \<and>
   (list_all (\<lambda>c. \<not> is_digit c) t \<longrightarrow> parse_price (Some t) = None)"
proof -
  have nodigit: "parse_price (Some t) = None" if "list_all (\<lambda>c. \<not> is_digit c) t" for t
    using py_float_no_digit [OF re_sub_no_digit [OF that]]
    by (simp add: parse_price_def)
  have "list_all (\<lambda>c. \<not> is_digit c) t" if "list_all (\<lambda>c. \<not> is_digit c \<and> c \<noteq> CHR ''.'') t"
    using that by (simp add: list_all_iff)
  with nodigit show ?thesis
    by (auto simp: parse_price_def)
qed

theorem parse_price_absent_witness:
  "list_all (\<lambda>c. \<not> is_digit c \<and> c \<noteq> CHR ''.'') ''Call for price'' \<and>
   parse_price (Some ''Call for price'') = None \<and>
   list_all (\<lambda>c. \<not> is_digit c) ''N/A...'' \<and>
   parse_price (Some ''N/A...'') = None"
  using parse_price_absent [of "''Call for price''"] parse_price_absent [of "''N/A...''"]
  by (simp add: is_digit_def)

section \<open>Facts about merging\<close>

lemma find_app:
  "find P (xs @ ys) = (case find P xs of None \<Rightarrow> find P ys | Some x \<Rightarrow> Some x)"
  by (induction xs) simp_all

lemma fold_existing_prices:
  "fold (\<lambda>c m. m(rd_id c \<mapsto> rd_price c)) cs m0 k =
     (case find (\<lambda>c. rd_id c = k) (rev cs) of None \<Rightarrow> m0 k | Some c \<Rightarrow> Some (rd_price c))"
proof (induction cs arbitrary: m0)
  case Nil
  then show ?case by simp
next
  case (Cons c cs)
  let ?F = "\<lambda>c m. m(rd_id c \<mapsto> rd_price c)"
  have step: "fold ?F (c # cs) m0 k = fold ?F cs (m0(rd_id c \<mapsto> rd_price c)) k"
    by simp
  have last: "find (\<lambda>c. rd_id c = k) (rev (c # cs)) =
      (case find (\<lambda>c. rd_id c = k) (rev cs) of
         None \<Rightarrow> if rd_id c = k then Some c else None
       | Some x \<Rightarrow> Some x)"
    by (simp add: find_app split: option.split)
  show ?case
    unfolding step last Cons.IH
    by (simp split: option.split)
qed

lemma existing_prices_find:
  "existing_prices existing k =
     (case find (\<lambda>c. rd_id c = k) (rev (get_cameras existing)) of
        None \<Rightarrow> None | Some c \<Rightarrow> Some (rd_price c))"
  by (simp add: existing_prices_def fold_existing_prices)



lemma find_distinct:
  "distinct (map rd_id cs) \<Longrightarrow> c \<in> set cs \<Longrightarrow> find (\<lambda>x. rd_id x = rd_id c) (rev cs) = Some c"
proof (induction cs)
  case Nil
  then show ?case by simp
next
  case (Cons a cs)
  show ?case
  proof (cases "c = a")
    case True
    have "rd_id a \<notin> rd_id ` set cs"
      using Cons.prems(1) by simp
    then have "\<forall>x\<in>set cs. rd_id x \<noteq> rd_id a"
      by (metis imageI)
    then have "find (\<lambda>x. rd_id x = rd_id a) (rev cs) = None"
      by (simp add: find_None_iff)
    with True show ?thesis by (simp add: find_app)
  next
    case False
    with Cons show ?thesis by (simp add: find_app)
  qed
qed








text \<open>
  C7. Merging a list of readings with a snapshot that holds the same readings is not the
  identity on prices for every list: when two readings share an identifier, the first with
  no price and the second with one, the first takes the price of the second.
\<close>

theorem merge_self_duplicate_ids:
  "map rd_price
     (merge_prices [sample_reading ''cam-1'' None, sample_reading ''cam-1'' (Some 5)]
        \<lparr>ex_cameras = Some [sample_reading ''cam-1'' None, sample_reading ''cam-1'' (Some 5)],
         ex_last_updated = None\<rparr>)
   \<noteq> map rd_price [sample_reading ''cam-1'' None, sample_reading ''cam-1'' (Some 5)]"
  by (simp add: merge_prices_def existing_prices_def get_cameras_def sample_reading_def)

text \<open>
  C7, amended. For every list of readings whose identifiers are pairwise distinct, merging
  it with a prior snapshot that holds those same readings returns the list unchanged, so
  every price is unchanged.
\<close>

theorem merge_self_distinct:
  assumes "distinct (map rd_id cameras)"
  shows "merge_prices cameras \<lparr>ex_cameras = Some cameras, ex_last_updated = t\<rparr> = cameras \<and>
         map rd_price (merge_prices cameras \<lparr>ex_cameras = Some cameras, ex_last_updated = t\<rparr>) =
           map rd_price cameras"
proof -
  have "existing_prices \<lparr>ex_cameras = Some cameras, ex_last_updated = t\<rparr> (rd_id c) =
      Some (rd_price c)"
    if "c \<in> set cameras" for c
    using find_distinct [OF assms that] by (simp add: existing_prices_find get_cameras_def)
  then have "merge_prices cameras \<lparr>ex_cameras = Some cameras, ex_last_updated = t\<rparr> = cameras"
    by (simp add: merge_prices_def map_idI)
  then show ?thesis by simp
qed

theorem merge_self_distinct_witness:
  "distinct (map rd_id [sample_reading ''cam-1'' None, sample_reading ''cam-2'' (Some 5)]) \<and>
   map rd_price
     (merge_prices [sample_reading ''cam-1'' None, sample_reading ''cam-2'' (Some 5)]
        \<lparr>ex_cameras = Some [sample_reading ''cam-1'' None, sample_reading ''cam-2'' (Some 5)],
         ex_last_updated = None\<rparr>) = [None, Some 5]"
proof -
  have d: "distinct (map rd_id [sample_reading ''cam-1'' None, sample_reading ''cam-2'' (Some 5)])"
    by (simp add: sample_reading_def)
  show ?thesis
    using merge_self_distinct [OF d, of None] d by (simp add: sample_reading_def)
qed

lemma scrape_loop_filter:
  "scrape_loop web cs = map (camera_result web) (filter get_enabled cs)"
  by (induction cs) simp_all

lemma merge_prices_map_field:
  assumes "\<And>r p. f (r\<lparr>rd_price := p\<rparr>) = f r"
  shows "map f (merge_prices new_cameras existing) = map f new_cameras"
  by (simp add: merge_prices_def assms split: option.split)

text \<open>
  C8. Whatever the prior snapshot, identifier, name, model, category, retailer, url and
  description of the merged readings are those of the fresh readings, in the same order;
  and for the readings scraped from a configuration they are, price apart, the readings
  built from the enabled cameras of that configuration.
\<close>

theorem merge_prices_frame:
  "map rd_id (merge_prices new_cameras existing) = map rd_id new_cameras \<and>
   map rd_name (merge_prices new_cameras existing) = map rd_name new_cameras \<and>
   map rd_model (merge_prices new_cameras existing) = map rd_model new_cameras \<and>
   map rd_category (merge_prices new_cameras existing) = map rd_category new_cameras \<and>
   map rd_retailer (merge_prices new_cameras existing) = map rd_retailer new_cameras \<and>
   map rd_url (merge_prices new_cameras existing) = map rd_url new_cameras \<and>
   map rd_description (merge_prices new_cameras existing) = map rd_description new_cameras \<and>
   map (\<lambda>r. r\<lparr>rd_price := None\<rparr>) (merge_prices (scrape_all_cameras web config) existing) =
     map (\<lambda>c. (camera_result web c)\<lparr>rd_price := None\<rparr>) (filter get_enabled (config_cameras config))"
proof -
  have "map (\<lambda>r. r\<lparr>rd_price := None\<rparr>) (merge_prices (scrape_all_cameras web config) existing) =
      map (\<lambda>r. r\<lparr>rd_price := None\<rparr>) (scrape_all_cameras web config)"
    by (rule merge_prices_map_field) simp
  then show ?thesis
    by (simp add: merge_prices_map_field scrape_all_cameras_def scrape_loop_filter comp_def)
qed

section \<open>Facts about the batch driver\<close>

lemma scrape_all_cameras_filter:
  "scrape_all_cameras web config =
     map (camera_result web) (filter get_enabled (config_cameras config))"
  by (simp add: scrape_all_cameras_def scrape_loop_filter)

lemma main_ids:
  assumes "main web config f = Inr snapshot"
  shows "map rd_id snapshot = map cam_id (filter get_enabled (config_cameras config))"
proof -
  obtain existing where "snapshot = merge_prices (scrape_all_cameras web config) existing"
    using assms by (auto simp: main_def split: sum.splits)
  then have "map rd_id snapshot = map rd_id (scrape_all_cameras web config)"
    by (simp add: merge_prices_map_field)
  then show ?thesis
    by (simp add: scrape_all_cameras_filter comp_def camera_result_def)
qed

text \<open>
  C9. A camera of the configuration whose enabled flag is false produces no reading: the
  scraped list is the one of the configuration without that camera. Whatever the previous
  output file holds, the identifiers of the produced snapshot are those of the enabled
  cameras, in order; so the identifier of the disabled camera is absent from the snapshot
  unless an enabled camera carries the same identifier.
\<close>

theorem disabled_camera_pruned:
  assumes "cam_enabled c = Some False" "config_cameras config = xs @ c # ys"
  shows "scrape_all_cameras web config = scrape_all_cameras web \<lparr>cfg_cameras = Some (xs @ ys)\<rparr> \<and>
    (main web config f = Inr snapshot \<longrightarrow>
       map rd_id snapshot = map cam_id (filter get_enabled (xs @ ys)) \<and>
       ((\<forall>d\<in>set (xs @ ys). get_enabled d \<longrightarrow> cam_id d \<noteq> cam_id c) \<longrightarrow>
          cam_id c \<notin> rd_id ` set snapshot))"
proof -
  have off: "\<not> get_enabled c"
    using assms(1) by (simp add: get_enabled_def)
  have same: "filter get_enabled (config_cameras config) = filter get_enabled (xs @ ys)"
    using off by (simp add: assms(2))
  have scr: "scrape_all_cameras web config =
      scrape_all_cameras web \<lparr>cfg_cameras = Some (xs @ ys)\<rparr>"
    using same by (simp add: scrape_all_cameras_filter config_cameras_def)
  have ids: "map rd_id snapshot = map cam_id (filter get_enabled (xs @ ys))"
    if "main web config f = Inr snapshot"
    using main_ids [OF that] same by simp
  have out: "cam_id c \<notin> rd_id ` set snapshot"
    if m: "main web config f = Inr snapshot"
      and d: "\<forall>d\<in>set (xs @ ys). get_enabled d \<longrightarrow> cam_id d \<noteq> cam_id c"
  proof -
    have "rd_id ` set snapshot = cam_id ` set (filter get_enabled (xs @ ys))"
      using ids [OF m] by (metis set_map)
    with d show ?thesis by auto
  qed
  show ?thesis
    using scr ids out by blast
qed

theorem disabled_camera_pruned_witness:
  "main offline
     \<lparr>cfg_cameras = Some [sample_camera ''cam-1'' (Some True), sample_camera ''cam-2'' (Some False)]\<rparr>
     (Loaded \<lparr>ex_cameras = Some [sample_reading ''cam-2'' (Some (22999 / 100))],
              ex_last_updated = None\<rparr>) =
     Inr [camera_result offline (sample_camera ''cam-1'' (Some True))] \<and>
   ''cam-2'' \<notin> rd_id ` set [camera_result offline (sample_camera ''cam-1'' (Some True))]"
proof -
  let ?cfg = "\<lparr>cfg_cameras =
    Some [sample_camera ''cam-1'' (Some True), sample_camera ''cam-2'' (Some False)]\<rparr>"
  let ?f = "Loaded \<lparr>ex_cameras = Some [sample_reading ''cam-2'' (Some (22999 / 100))],
    ex_last_updated = None\<rparr>"
  let ?snap = "[camera_result offline (sample_camera ''cam-1'' (Some True))]"
  have e: "cam_enabled (sample_camera ''cam-2'' (Some False)) = Some False"
    by (simp add: sample_camera_def)
  have c: "config_cameras ?cfg =
      [sample_camera ''cam-1'' (Some True)] @ sample_camera ''cam-2'' (Some False) # []"
    by (simp add: config_cameras_def)
  have m: "main offline ?cfg ?f = Inr ?snap"
    by (simp add: main_def load_existing_prices_def scrape_all_cameras_def config_cameras_def
        get_enabled_def sample_camera_def merge_prices_def existing_prices_def get_cameras_def
        sample_reading_def camera_result_def fetch_price_def offline_def)
  have d: "\<forall>d\<in>set ([sample_camera ''cam-1'' (Some True)] @ []).
      get_enabled d \<longrightarrow> cam_id d \<noteq> cam_id (sample_camera ''cam-2'' (Some False))"
    by (simp add: sample_camera_def)
  show ?thesis
    using disabled_camera_pruned [OF e c, of offline ?f ?snap] m d
    by (simp add: sample_camera_def)
qed

text \<open>
  C10. A camera of the configuration without the enabled key counts as enabled: its reading
  is in the scraped list and its identifier is in the produced snapshot. The reading of an
  enabled camera without the price_selector key carries the price fetched with the
  selector \<open>.price\<close>.
\<close>

theorem missing_keys_default:
  assumes "camera \<in> set (config_cameras config)"
  shows "(cam_enabled camera = None \<longrightarrow>
           get_enabled camera \<and>
           camera_result web camera \<in> set (scrape_all_cameras web config) \<and>
           (main web config f = Inr snapshot \<longrightarrow> cam_id camera \<in> rd_id ` set snapshot)) \<and>
         (get_enabled camera \<and> cam_price_selector camera = None \<longrightarrow>
           camera_result web camera \<in> set (scrape_all_cameras web config) \<and>
           rd_price (camera_result web camera) = fetch_price web (cam_url camera) ''.price'')"
proof -
  have inc: "camera_result web camera \<in> set (scrape_all_cameras web config)"
    if "get_enabled camera"
    using assms that by (simp add: scrape_all_cameras_filter)
  have snap: "cam_id camera \<in> rd_id ` set snapshot"
    if en: "get_enabled camera" and m: "main web config f = Inr snapshot"
  proof -
    have "rd_id ` set snapshot = cam_id ` set (filter get_enabled (config_cameras config))"
      using main_ids [OF m] by (metis set_map)
    with assms en show ?thesis by simp
  qed
  have dflt: "get_enabled camera" if "cam_enabled camera = None"
    using that by (simp add: get_enabled_def)
  have sel: "rd_price (camera_result web camera) = fetch_price web (cam_url camera) ''.price''"
    if "cam_price_selector camera = None"
    using that by (simp add: camera_result_def)
  show ?thesis
    using inc snap dflt sel by blast
qed

theorem missing_keys_default_witness:
  "rd_price (camera_result (single_page page_call_for_price) (sample_camera ''cam-1'' None)) =
     Some (24999 / 100) \<and>
   scrape_all_cameras (single_page page_call_for_price)
     \<lparr>cfg_cameras = Some [sample_camera ''cam-1'' None]\<rparr> =
     [camera_result (single_page page_call_for_price) (sample_camera ''cam-1'' None)]"
proof -
  let ?cfg = "\<lparr>cfg_cameras = Some [sample_camera ''cam-1'' None]\<rparr>"
  let ?web = "single_page page_call_for_price"
  have c: "sample_camera ''cam-1'' None \<in> set (config_cameras ?cfg)"
    by (simp add: config_cameras_def)
  have e: "cam_enabled (sample_camera ''cam-1'' None) = None"
    "cam_price_selector (sample_camera ''cam-1'' None) = None"
    by (simp_all add: sample_camera_def)
  have p: "fetch_price ?web (cam_url (sample_camera ''cam-1'' None)) ''.price'' = Some (24999 / 100)"
    by (simp add: fetch_price_def single_page_def page_call_for_price_def fallback_selectors_def
        text_element_def parse_price_def re_sub_non_numeric_def py_float_def is_digit_def
        digits_value_def digit_value_def)
  have s: "scrape_all_cameras ?web ?cfg = [camera_result ?web (sample_camera ''cam-1'' None)]"
    by (simp add: scrape_all_cameras_def config_cameras_def get_enabled_def e)
  show ?thesis
    using missing_keys_default [OF c, of ?web] e p s by simp
qed

section \<open>Facts about extraction\<close>

lemmas price_eval =
  parse_price_def re_sub_non_numeric_def py_float_def is_digit_def digits_value_def
  digit_value_def

text \<open>
  C1. A primary selector that matches an element with unparseable text does not lead to
  the fallback selectors: on the page \<open>page_call_for_price\<close> the primary selector
  \<open>#cost\<close> matches the text \<open>Call for price\<close>, the fallback selectors alone would
  give 249.99, and \<^verbatim>\<open>fetch_price\<close> returns absent.
\<close>

theorem primary_unparseable_no_fallback:
  \<open>page_call_for_price ''#cost'' = text_element ''Call for price'' \<and>
   parse_price (Some ''Call for price'') = None \<and>
   fallback_loop page_call_for_price fallback_selectors = Some (24999 / 100) \<and>
   fetch_price (single_page page_call_for_price) ''https://shop.example/item'' ''#cost'' = None\<close>
  by (simp add: fetch_price_def single_page_def page_call_for_price_def fallback_selectors_def
      text_element_def price_eval)

text \<open>
  C1, amended. On a fetched page, when the primary selector matches no element the result
  is that of the loop over the fixed list of fallback selectors; when it matches an element
  the result is the parse of that element's text and nothing else of the page counts: an
  unparseable text gives absent at once, and any other page on which the primary selector
  matches the same element gives the same result.
\<close>

theorem fetch_price_primary:
  assumes "web url = Html soup"
  shows "(soup price_selector = No_element \<longrightarrow>
            fetch_price web url price_selector = fallback_loop soup fallback_selectors) \<and>
         (soup price_selector = Element e \<longrightarrow>
            fetch_price web url price_selector = parse_price (Some (get_text e))) \<and>
         (soup price_selector = Element e \<and> parse_price (Some (get_text e)) = None \<longrightarrow>
            fetch_price web url price_selector = None) \<and>
         (soup price_selector = Element e \<and> web' url' = Html soup' \<and>
          soup' price_selector = Element e \<longrightarrow>
            fetch_price web' url' price_selector = fetch_price web url price_selector)"
  using assms by (simp add: fetch_price_def)

theorem fetch_price_primary_witness:
  \<open>fetch_price (single_page page_call_for_price) ''https://shop.example/item'' ''.price'' =
     Some (24999 / 100) \<and>
   fetch_price (single_page page_call_for_price) ''https://shop.example/item'' ''#cost'' = None \<and>
   fetch_price (single_page (page_meta_currency(''#cost'' := text_element ''Call for price'')))
     ''https://shop.example/item'' ''#cost'' = None\<close>
proof -
  let ?url = "''https://shop.example/item''"
  let ?other = "page_meta_currency(''#cost'' := text_element ''Call for price'')"
  have w: "single_page page_call_for_price ?url = Html page_call_for_price"
    "single_page ?other ?url = Html ?other"
    by (simp_all add: single_page_def)
  have a: "page_call_for_price ''.price'' = No_element"
    "page_call_for_price ''#cost'' = Element \<lparr>content_attr = None, get_text = ''Call for price''\<rparr>"
    "?other ''#cost'' = Element \<lparr>content_attr = None, get_text = ''Call for price''\<rparr>"
    by (simp_all add: page_call_for_price_def text_element_def)
  have f: \<open>fallback_loop page_call_for_price fallback_selectors = Some (24999 / 100)\<close>
    by (simp add: page_call_for_price_def fallback_selectors_def text_element_def price_eval)
  have p: "parse_price (Some ''Call for price'') = None"
    by (simp add: price_eval)
  show ?thesis
    using
      fetch_price_primary [where web = "single_page page_call_for_price" and url = ?url
        and soup = page_call_for_price and price_selector = "''.price''"
        and e = "\<lparr>content_attr = None, get_text = ''Call for price''\<rparr>"]
      fetch_price_primary [where web = "single_page page_call_for_price" and url = ?url
        and soup = page_call_for_price and price_selector = "''#cost''"
        and e = "\<lparr>content_attr = None, get_text = ''Call for price''\<rparr>"
        and web' = "single_page ?other" and url' = ?url and soup' = ?other]
      w a f p
    by simp
qed

text \<open>
  C2. On the page \<open>page_meta_currency\<close> the primary selector \<open>.price\<close> matches
  nothing, the first fallback selector matches a meta element whose content attribute is
  \<open>USD\<close>, and the third matches an element with the text \<open>$249.99\<close>. The loop returns the parse of the
  content attribute, which is absent, and the remaining fallback selectors, which give
  249.99, are never consulted.
\<close>

theorem fallback_content_stops_search:
  \<open>page_meta_currency ''.price'' = No_element \<and>
   page_meta_currency ''[class*="price"]'' =
     Element \<lparr>content_attr = Some ''USD'', get_text = ''''\<rparr> \<and>
   parse_price (Some ''USD'') = None \<and>
   page_meta_currency ''.product-price'' = text_element ''$249.99'' \<and>
   parse_price (Some ''$249.99'') = Some (24999 / 100) \<and>
   fallback_loop page_meta_currency (tl fallback_selectors) = Some (24999 / 100) \<and>
   fetch_price (single_page page_meta_currency) ''https://shop.example/item'' ''.price'' = None\<close>
  by (simp add: fetch_price_def single_page_def page_meta_currency_def fallback_selectors_def
      text_element_def price_eval)

end
